theory Spec2Isabelle
  imports Main "HOL-Library.Word" "HOL-Library.Sublist"
begin

section \<open>Python values, exceptions and string primitives\<close>

text \<open>
  A Python \<open>str\<close> is modelled as a \<open>string\<close> whose characters stand for the code points
  0 to 255; \<open>bytes\<close> are lists of 8-bit words. A function that can raise returns
  \<open>exn + 'a\<close>, with \<open>Inl\<close> holding the exception. The two exception classes of the
  repository carry their message; of an exception raised inside a library only the class
  is kept.
\<close>

type_synonym byte = "8 word"

datatype exn =
    EthPMValidationError string
  | ValidationError string
  | ValueError
  | TypeError
  | UnicodeDecodeError
  | UnicodeEncodeError
  | BinasciiError

text \<open>The family of typed failures of the URI validators is the one class
  \<open>EthPMValidationError\<close>; its members are told apart by their message.\<close>

definition is_validation_error :: "exn \<Rightarrow> bool" where
  "is_validation_error e = (case e of EthPMValidationError _ \<Rightarrow> True | _ \<Rightarrow> False)"

definition exn_message :: "exn \<Rightarrow> string" where
  "exn_message e =
     (case e of EthPMValidationError m \<Rightarrow> m | ValidationError m \<Rightarrow> m | _ \<Rightarrow> [])"

text \<open>\<open>s.split(sep)\<close> for a separator of one character: always at least one part.\<close>

fun split_on :: "char \<Rightarrow> string \<Rightarrow> string list" where
  "split_on sep [] = [[]]"
| "split_on sep (c # cs) =
     (if c = sep then [] # split_on sep cs
      else (case split_on sep cs of [] \<Rightarrow> [[c]] | p # ps \<Rightarrow> (c # p) # ps))"

text \<open>\<open>s.strip(chars)\<close>: leading and trailing characters of the set are removed.\<close>

definition py_strip :: "string \<Rightarrow> string \<Rightarrow> string" where
  "py_strip chars s =
     rev (dropWhile (\<lambda>c. c \<in> set chars) (rev (dropWhile (\<lambda>c. c \<in> set chars) s)))"

text \<open>The characters below 256 that \<open>int()\<close> drops around a literal: tab to carriage
  return, the space, and the two whitespace characters above 127. The separators
  \<open>0x1C\<close> to \<open>0x1F\<close> are not dropped.\<close>

definition int_isspace :: "char \<Rightarrow> bool" where
  "int_isspace c = (let n = (of_char c :: nat) in
     (9 \<le> n \<and> n \<le> 13) \<or> n = 32 \<or> n = 133 \<or> n = 160)"

definition int_strip_space :: "string \<Rightarrow> string" where
  "int_strip_space s = rev (dropWhile int_isspace (rev (dropWhile int_isspace s)))"

text \<open>A text that may hold code points above 255 is the list of its code points.\<close>

definition code_points :: "string \<Rightarrow> nat list" where
  "code_points s = map of_char s"

definition is_digit :: "char \<Rightarrow> bool" where
  "is_digit c = (let n = (of_char c :: nat) in 48 \<le> n \<and> n \<le> 57)"

definition digit_val :: "char \<Rightarrow> nat" where
  "digit_val c = of_char c - 48"

text \<open>The digits of a decimal literal after the first one: a single underscore may
  stand between two digits.\<close>

fun parse_digits :: "nat \<Rightarrow> string \<Rightarrow> nat option" where
  "parse_digits acc [] = Some acc"
| "parse_digits acc [c] = (if is_digit c then Some (10 * acc + digit_val c) else None)"
| "parse_digits acc (c # d # ds) =
     (if is_digit c then parse_digits (10 * acc + digit_val c) (d # ds)
      else if c = CHR ''_'' \<and> is_digit d then parse_digits (10 * acc + digit_val d) ds
      else None)"

definition parse_unsigned :: "string \<Rightarrow> nat option" where
  "parse_unsigned s =
     (case s of [] \<Rightarrow> None
      | c # cs \<Rightarrow> if is_digit c then parse_digits (digit_val c) cs else None)"

text \<open>
  \<open>eth_utils.to_int(text=s)\<close> is \<open>int(s)\<close>: surrounding whitespace is dropped, a sign
  may lead, and anything else than a decimal literal raises \<open>ValueError\<close>.
\<close>

definition to_int :: "string \<Rightarrow> exn + int" where
  "to_int text =
     (let s = int_strip_space text;
          r = (case s of
                 [] \<Rightarrow> None
               | c # cs \<Rightarrow>
                   if c = CHR ''-'' then map_option (\<lambda>n. - int n) (parse_unsigned cs)
                   else if c = CHR ''+'' then map_option int (parse_unsigned cs)
                   else map_option int (parse_unsigned s))
      in case r of None \<Rightarrow> Inl ValueError | Some n \<Rightarrow> Inr n)"

section \<open>External collaborators\<close>

text \<open>The six components that \<open>urllib.parse.urlparse\<close> returns.\<close>

record parse_result =
  scheme :: string
  netloc :: string
  path :: string
  params :: string
  query :: string
  fragment :: string

text \<open>
  The validators call into modules that are not part of the two files verified here:
  the registry scheme constant, the recognisers for IPFS URIs, ENS domains and
  checksummed addresses, the table of supported chain ids, the package-name validator,
  the URL and query-string parsers of the standard library and its SHA-1. They are
  parameters of the model, so every theorem below holds whatever they compute.
\<close>

record externals =
  REGISTRY_URI_SCHEME :: string
  is_ipfs_uri :: "string \<Rightarrow> bool"
  is_ens_domain :: "string \<Rightarrow> bool"
  is_checksum_address :: "string \<Rightarrow> bool"
  is_supported_chain_id :: "int \<Rightarrow> bool"
  validate_package_name :: "string \<Rightarrow> exn + unit"
  urlparse :: "string \<Rightarrow> exn + parse_result"
  parse_qs :: "string \<Rightarrow> exn + (nat list \<times> nat list list) list"
  sha1 :: "byte list \<Rightarrow> byte list"

section \<open>ethpm/validation/uri.py: registry URIs\<close>

definition validate_ipfs_uri :: "externals \<Rightarrow> string \<Rightarrow> exn + unit" where
  "validate_ipfs_uri E uri =
     (if \<not> is_ipfs_uri E uri
      then Inl (EthPMValidationError (''URI: '' @ uri @ '' is not a valid IPFS URI.''))
      else Inr ())"

definition validate_registry_uri_scheme :: "externals \<Rightarrow> string \<Rightarrow> exn + unit" where
  "validate_registry_uri_scheme E sch =
     (if sch \<noteq> REGISTRY_URI_SCHEME E
      then Inl (EthPMValidationError (sch @ '' is not a valid registry URI scheme.''))
      else Inr ())"

definition validate_registry_uri_version :: "externals \<Rightarrow> string \<Rightarrow> exn + unit" where
  "validate_registry_uri_version E q =
     (case parse_qs E q of
        Inl e \<Rightarrow> Inl e
      | Inr query_dict \<Rightarrow>
          if code_points ''version'' \<notin> set (map fst query_dict)
          then Inl (EthPMValidationError (q @ '' is not a correctly formatted version param.''))
          else Inr ())"

text \<open>The three messages of the authority validator and the one of the
  version-without-package-name check, as the source spells them.\<close>

definition MalformedAuthority :: "string \<Rightarrow> exn" where
  "MalformedAuthority auth = EthPMValidationError
     (auth @ '' is not a valid registry URI authority. Please try again with a valid registry URI.'')"

definition InvalidAuthorityIdentity :: "string \<Rightarrow> exn" where
  "InvalidAuthorityIdentity address = EthPMValidationError
     (address @ '' is not a valid registry address. Please try again with a valid registry URI.'')"

definition UnsupportedChainID :: "string \<Rightarrow> exn" where
  "UnsupportedChainID chain_id = EthPMValidationError
     (''Chain ID: '' @ chain_id @ '' is not supported. Supported chain ids include: ''
      @ ''1 (mainnet), 3 (ropsten), 4 (rinkeby), 5 (goerli) and 42 (kovan). ''
      @ ''Please try again with a valid registry URI.'')"

definition MissingPackageName :: exn where
  "MissingPackageName =
     EthPMValidationError ''Registry URIs cannot provide a version without a package name.''"

text \<open>
  The unpacking \<open>address, chain_id = auth.split(':')\<close> raises \<open>ValueError\<close> unless the
  split has exactly two parts, and only that statement stands inside the \<open>try\<close>.
  \<open>to_int\<close> is called outside of it, so its \<open>ValueError\<close> is not caught.
\<close>

definition validate_registry_uri_authority :: "externals \<Rightarrow> string \<Rightarrow> exn + unit" where
  "validate_registry_uri_authority E auth =
     (case split_on CHR '':'' auth of
        [address, chain_id] \<Rightarrow>
          if \<not> is_ens_domain E address \<and> \<not> is_checksum_address E address
          then Inl (InvalidAuthorityIdentity address)
          else (case to_int chain_id of
                  Inl e \<Rightarrow> Inl e
                | Inr n \<Rightarrow>
                    if \<not> is_supported_chain_id E n then Inl (UnsupportedChainID chain_id)
                    else Inr ())
      | _ \<Rightarrow> Inl (MalformedAuthority auth))"

definition validate_registry_uri :: "externals \<Rightarrow> string \<Rightarrow> exn + unit" where
  "validate_registry_uri E uri =
     (case urlparse E uri of
        Inl e \<Rightarrow> Inl e
      | Inr parsed \<Rightarrow>
     (case validate_registry_uri_scheme E (scheme parsed) of
        Inl e \<Rightarrow> Inl e
      | Inr _ \<Rightarrow>
     (case validate_registry_uri_authority E (netloc parsed) of
        Inl e \<Rightarrow> Inl e
      | Inr _ \<Rightarrow>
     (let pkg_name = py_strip ''/'' (path parsed); version = query parsed in
      case (if pkg_name \<noteq> [] then validate_package_name E pkg_name else Inr ()) of
        Inl e \<Rightarrow> Inl e
      | Inr _ \<Rightarrow>
          if pkg_name = [] \<and> version \<noteq> [] then Inl MissingPackageName
          else if version \<noteq> [] then validate_registry_uri_version E version
          else Inr ()))))"

section \<open>ethpm/validation/uri.py: selection of the matching chain URI\<close>

text \<open>\<open>str(n)\<close> for a natural number: its decimal digits.\<close>

fun py_str_nat :: "nat \<Rightarrow> string" where
  "py_str_nat n =
     (if n < 10 then [char_of (48 + n)]
      else py_str_nat (n div 10) @ [char_of (48 + n mod 10)])"

definition hex_digit :: "nat \<Rightarrow> char" where
  "hex_digit n = (if n < 10 then char_of (48 + n) else char_of (87 + n))"

text \<open>
  \<open>repr(s)\<close> of a \<open>str\<close>: single quotes, unless the text holds a single quote and no
  double quote; the quote and the backslash are escaped, tab, newline and carriage
  return have their letter, and a code point that is not printable is written
  \<open>\xhh\<close>.
\<close>

definition py_isprintable :: "char \<Rightarrow> bool" where
  "py_isprintable c = (let n = (of_char c :: nat) in
     (32 \<le> n \<and> n < 127) \<or> (161 \<le> n \<and> n \<noteq> 173))"

definition repr_char :: "char \<Rightarrow> char \<Rightarrow> string" where
  "repr_char quote c =
     (if c = quote \<or> c = CHR 0x5C then [CHR 0x5C, c]
      else if c = CHR 0x09 then [CHR 0x5C, CHR ''t'']
      else if c = CHR 0x0A then [CHR 0x5C, CHR ''n'']
      else if c = CHR 0x0D then [CHR 0x5C, CHR ''r'']
      else if py_isprintable c then [c]
      else [CHR 0x5C, CHR ''x'', hex_digit (of_char c div 16), hex_digit (of_char c mod 16)])"

definition py_repr_str :: "string \<Rightarrow> string" where
  "py_repr_str s =
     (let quote = (if CHR 0x27 \<in> set s \<and> CHR 0x22 \<notin> set s then CHR 0x22 else CHR 0x27)
      in [quote] @ concat (map (repr_char quote) s) @ [quote])"

fun join_comma :: "string list \<Rightarrow> string" where
  "join_comma [] = []"
| "join_comma [x] = x"
| "join_comma (x # y # ys) = x @ '', '' @ join_comma (y # ys)"

definition py_repr_list :: "string list \<Rightarrow> string" where
  "py_repr_list xs = ''['' @ join_comma (map py_repr_str xs) @ '']''"

definition NoMatchingURI :: exn where
  "NoMatchingURI = EthPMValidationError ''Package has no matching URIs on chain.''"

definition AmbiguousMatch :: "string list \<Rightarrow> exn" where
  "AmbiguousMatch matching_uris = EthPMValidationError
     (''Package has too many ('' @ py_str_nat (length matching_uris) @ '') matching URIs: ''
      @ py_repr_list matching_uris @ ''.'')"

text \<open>
  \<open>check_if_chain_matches_chain_uri\<close> is imported from \<open>ethpm.uri\<close> inside the
  function; it is the first parameter here, and \<open>'w\<close> is the type of the chain handle.
\<close>

definition validate_single_matching_uri ::
  "('w \<Rightarrow> string \<Rightarrow> bool) \<Rightarrow> string list \<Rightarrow> 'w \<Rightarrow> exn + string" where
  "validate_single_matching_uri check_if_chain_matches_chain_uri all_blockchain_uris w3 =
     (let matching_uris = filter (check_if_chain_matches_chain_uri w3) all_blockchain_uris
      in if matching_uris = [] then Inl NoMatchingURI
         else if length matching_uris \<noteq> 1 then Inl (AmbiguousMatch matching_uris)
         else Inr (matching_uris ! 0))"

section \<open>ethpm/validation/uri.py: blob contents\<close>

text \<open>
  \<open>eth_utils.to_text(contents)\<close> decodes the bytes as UTF-8, strictly: overlong forms,
  surrogates and values above \<open>0x10FFFF\<close> raise \<open>UnicodeDecodeError\<close>. The decoded text
  is a list of code points.
\<close>

definition is_cont :: "byte \<Rightarrow> bool" where
  "is_cont b = (128 \<le> unat b \<and> unat b \<le> 191)"

fun utf8_decode :: "byte list \<Rightarrow> nat list option" where
  "utf8_decode [] = Some []"
| "utf8_decode (b0 # bs) =
     (if unat b0 < 128 then map_option ((#) (unat b0)) (utf8_decode bs)
      else if 194 \<le> unat b0 \<and> unat b0 \<le> 223 then
        (case bs of
           b1 # r \<Rightarrow>
             if is_cont b1
             then map_option ((#) ((unat b0 - 192) * 64 + (unat b1 - 128))) (utf8_decode r)
             else None
         | _ \<Rightarrow> None)
      else if 224 \<le> unat b0 \<and> unat b0 \<le> 239 then
        (case bs of
           b1 # b2 # r \<Rightarrow>
             if is_cont b1 \<and> is_cont b2
                \<and> (unat b0 = 224 \<longrightarrow> 160 \<le> unat b1) \<and> (unat b0 = 237 \<longrightarrow> unat b1 \<le> 159)
             then map_option
                    ((#) ((unat b0 - 224) * 4096 + (unat b1 - 128) * 64 + (unat b2 - 128)))
                    (utf8_decode r)
             else None
         | _ \<Rightarrow> None)
      else if 240 \<le> unat b0 \<and> unat b0 \<le> 244 then
        (case bs of
           b1 # b2 # b3 # r \<Rightarrow>
             if is_cont b1 \<and> is_cont b2 \<and> is_cont b3
                \<and> (unat b0 = 240 \<longrightarrow> 144 \<le> unat b1) \<and> (unat b0 = 244 \<longrightarrow> unat b1 \<le> 143)
             then map_option
                    ((#) ((unat b0 - 240) * 262144 + (unat b1 - 128) * 4096
                          + (unat b2 - 128) * 64 + (unat b3 - 128)))
                    (utf8_decode r)
             else None
         | _ \<Rightarrow> None)
      else None)"

definition to_text :: "byte list \<Rightarrow> exn + nat list" where
  "to_text contents =
     (case utf8_decode contents of None \<Rightarrow> Inl UnicodeDecodeError | Some t \<Rightarrow> Inr t)"

text \<open>\<open>eth_utils.to_bytes(text=t)\<close> encodes as UTF-8; a surrogate cannot be encoded.\<close>

definition encode_cp :: "nat \<Rightarrow> byte list option" where
  "encode_cp n =
     (if n < 128 then Some [of_nat n]
      else if n < 2048 then Some [of_nat (192 + n div 64), of_nat (128 + n mod 64)]
      else if 55296 \<le> n \<and> n \<le> 57343 then None
      else if n < 65536 then
        Some [of_nat (224 + n div 4096), of_nat (128 + n div 64 mod 64), of_nat (128 + n mod 64)]
      else if n < 1114112 then
        Some [of_nat (240 + n div 262144), of_nat (128 + n div 4096 mod 64),
              of_nat (128 + n div 64 mod 64), of_nat (128 + n mod 64)]
      else None)"

fun utf8_encode :: "nat list \<Rightarrow> byte list option" where
  "utf8_encode [] = Some []"
| "utf8_encode (n # ns) =
     (case encode_cp n of
        None \<Rightarrow> None
      | Some bs \<Rightarrow> map_option ((@) bs) (utf8_encode ns))"

definition to_bytes_text :: "nat list \<Rightarrow> exn + byte list" where
  "to_bytes_text t =
     (case utf8_encode t of None \<Rightarrow> Inl UnicodeEncodeError | Some bs \<Rightarrow> Inr bs)"

text \<open>The bytes of a text of ASCII characters.\<close>

definition ascii_bytes :: "string \<Rightarrow> byte list" where
  "ascii_bytes s = map (\<lambda>c. of_nat (of_char c)) s"

text \<open>\<open>hexdigest()\<close>: two lowercase hexadecimal digits for every byte.\<close>

definition hexlify :: "byte list \<Rightarrow> string" where
  "hexlify bs = concat (map (\<lambda>b. [hex_digit (unat b div 16), hex_digit (unat b mod 16)]) bs)"

definition hashable_contents :: "nat list \<Rightarrow> nat list" where
  "hashable_contents contents_str =
     code_points ''blob '' @ code_points (py_str_nat (length contents_str)) @ [0] @ contents_str"

definition ContentHashMismatch :: "string \<Rightarrow> string \<Rightarrow> exn" where
  "ContentHashMismatch blob_uri blob_hash = EthPMValidationError
     (''Hash of contents fetched from '' @ blob_uri @ '' do not match its hash: ''
      @ blob_hash @ ''.'')"

definition validate_blob_uri_contents :: "externals \<Rightarrow> byte list \<Rightarrow> string \<Rightarrow> exn + unit" where
  "validate_blob_uri_contents E contents blob_uri =
     (case urlparse E blob_uri of
        Inl e \<Rightarrow> Inl e
      | Inr parsed \<Rightarrow>
     (let blob_path = path parsed;
          blob_hash = last (split_on CHR ''/'' blob_path)
      in case to_text contents of
           Inl e \<Rightarrow> Inl e
         | Inr contents_str \<Rightarrow>
        (case to_bytes_text (hashable_contents contents_str) of
           Inl e \<Rightarrow> Inl e
         | Inr hashable \<Rightarrow>
             if hexlify (sha1 E hashable) \<noteq> blob_hash
             then Inl (ContentHashMismatch blob_uri blob_hash)
             else Inr ())))"

section \<open>web3/middleware/validation.py\<close>

text \<open>The Python values that reach the formatters of the middleware.\<close>

datatype pyval =
    PNone
  | PBool bool
  | PInt int
  | PStr string
  | PBytes "byte list"
  | PByteArray "byte list"
  | PList "pyval list"
  | PDict "(string \<times> pyval) list"

definition MAX_EXTRADATA_LENGTH :: nat where
  "MAX_EXTRADATA_LENGTH = 32"

text \<open>\<open>isinstance(val, (str, int, bytes))\<close>; \<open>bool\<close> is a subclass of \<open>int\<close>.\<close>

fun is_str_int_bytes :: "pyval \<Rightarrow> bool" where
  "is_str_int_bytes (PStr _) = True"
| "is_str_int_bytes (PInt _) = True"
| "is_str_int_bytes (PBool _) = True"
| "is_str_int_bytes (PBytes _) = True"
| "is_str_int_bytes _ = False"

definition hex_val :: "char \<Rightarrow> nat option" where
  "hex_val c = (let n = (of_char c :: nat) in
     if 48 \<le> n \<and> n \<le> 57 then Some (n - 48)
     else if 97 \<le> n \<and> n \<le> 102 then Some (n - 87)
     else if 65 \<le> n \<and> n \<le> 70 then Some (n - 55)
     else None)"

text \<open>\<open>binascii.unhexlify\<close>: an odd length or a character that is no hexadecimal
  digit raises \<open>binascii.Error\<close>.\<close>

fun unhexlify :: "string \<Rightarrow> exn + byte list" where
  "unhexlify [] = Inr []"
| "unhexlify [c] = Inl BinasciiError"
| "unhexlify (c # d # cs) =
     (case (hex_val c, hex_val d) of
        (Some h, Some l) \<Rightarrow>
          (case unhexlify cs of Inl e \<Rightarrow> Inl e | Inr bs \<Rightarrow> Inr (of_nat (16 * h + l) # bs))
      | _ \<Rightarrow> Inl BinasciiError)"

text \<open>\<open>hexbytes\<close>: the prefix \<open>0x\<close> or \<open>0X\<close> is dropped, an odd number of digits is
  padded with a zero on the left, and the text must be ASCII.\<close>

definition hexstr_to_bytes :: "string \<Rightarrow> exn + byte list" where
  "hexstr_to_bytes hexstr =
     (let non_prefixed_hex =
            (if take 2 hexstr = ''0x'' \<or> take 2 hexstr = ''0X'' then drop 2 hexstr else hexstr);
          padded_hex =
            (if odd (length hexstr) then CHR ''0'' # non_prefixed_hex else non_prefixed_hex)
      in if list_ex (\<lambda>c. 128 \<le> (of_char c :: nat)) padded_hex then Inl UnicodeEncodeError
         else unhexlify padded_hex)"

text \<open>\<open>hex(n)\<close> for \<open>n \<ge> 0\<close>, without its prefix.\<close>

fun py_hex_nat :: "nat \<Rightarrow> string" where
  "py_hex_nat n =
     (if n < 16 then [hex_digit n] else py_hex_nat (n div 16) @ [hex_digit (n mod 16)])"

text \<open>\<open>HexBytes(val)\<close>: \<open>bytes\<close> are kept, a \<open>str\<close> is read as hexadecimal, a
  \<open>bool\<close> is one byte, an \<open>int\<close> must not be negative and is read through \<open>hex(val)\<close>;
  another type raises \<open>TypeError\<close>.\<close>

fun HexBytes :: "pyval \<Rightarrow> exn + byte list" where
  "HexBytes (PBytes bs) = Inr bs"
| "HexBytes (PStr s) = hexstr_to_bytes s"
| "HexBytes (PByteArray bs) = Inr bs"
| "HexBytes (PBool b) = Inr [if b then 1 else 0]"
| "HexBytes (PInt n) =
     (if n < 0 then Inl ValueError else hexstr_to_bytes (''0x'' @ py_hex_nat (nat n)))"
| "HexBytes _ = Inl TypeError"

definition repr_HexBytes :: "byte list \<Rightarrow> string" where
  "repr_HexBytes bs = ''HexBytes('' @ py_repr_str (''0x'' @ hexlify bs) @ '')''"

definition extradata_message :: "byte list \<Rightarrow> string" where
  "extradata_message result =
     ''The field extraData is '' @ py_str_nat (length result) @ '' bytes, but should be ''
     @ py_str_nat MAX_EXTRADATA_LENGTH @ ''. ''
     @ ''It is quite likely that you are connected to a POA chain. ''
     @ ''Refer ''
     @ ''http://web3py.readthedocs.io/en/stable/middleware.html#geth-style-proof-of-authority ''
     @ ''for more details. The full extraData is: '' @ repr_HexBytes result"

definition check_extradata_length :: "pyval \<Rightarrow> exn + pyval" where
  "check_extradata_length val =
     (if \<not> is_str_int_bytes val then Inr val
      else (case HexBytes val of
              Inl e \<Rightarrow> Inl e
            | Inr result \<Rightarrow>
                if length result > MAX_EXTRADATA_LENGTH
                then Inl (ValidationError (extradata_message result))
                else Inr val))"

text \<open>
  A \<open>dict\<close> with \<open>str\<close> keys is the list of its items in insertion order, the keys
  distinct. \<open>toolz.dissoc(d, *keys)\<close> builds a new dict: it copies \<open>d\<close> and deletes the
  keys when \<open>len(keys) < len(d) * .6\<close>, and copies the remaining keys otherwise. With the
  single key of \<open>transaction_normalizer\<close> the second branch runs on dicts of at most
  one item only, where the order in which the set of remaining keys is traversed does
  not matter.
\<close>

type_synonym dict = "(string \<times> pyval) list"

definition dict_del :: "dict \<Rightarrow> string \<Rightarrow> dict" where
  "dict_del d key = filter (\<lambda>item. fst item \<noteq> key) d"

definition dissoc :: "dict \<Rightarrow> string \<Rightarrow> dict" where
  "dissoc d key =
     (if 10 * 1 < 6 * length d
      then (if key \<in> set (map fst d) then dict_del d key else d)
      else map (\<lambda>k. (k, the (map_of d k))) (filter (\<lambda>k. k \<noteq> key) (map fst d)))"

definition transaction_normalizer :: "dict \<Rightarrow> dict" where
  "transaction_normalizer transaction = dissoc transaction ''chainId''"

section \<open>A concrete instance of the external collaborators\<close>

text \<open>
  To run the validators on concrete inputs, the standard-library functions are given
  executable models and the collaborators of the \<open>ethpm\<close> package are given stub
  predicates.
\<close>

subsection \<open>\<open>urllib.parse.urlparse\<close> (CPython 3.7), on URLs of ASCII characters\<close>

definition scheme_chars :: string where
  "scheme_chars = ''abcdefghijklmnopqrstuvwxyzABCDEFGHIJKLMNOPQRSTUVWXYZ0123456789+-.''"

definition uses_params :: "string list" where
  "uses_params = [[], ''ftp'', ''hdl'', ''prospero'', ''http'', ''imap'', ''https'', ''shttp'',
     ''rtsp'', ''rtspu'', ''sip'', ''sips'', ''mms'', ''sftp'', ''tel'']"

definition py_lower :: "string \<Rightarrow> string" where
  "py_lower s = map (\<lambda>c. let n = (of_char c :: nat) in
                       if 65 \<le> n \<and> n \<le> 90 then char_of (n + 32) else c) s"

text \<open>\<open>s.split(sep, 1)\<close> when \<open>sep\<close> occurs in \<open>s\<close>: the text before the first
  occurrence and the text after it.\<close>

definition split_first :: "char \<Rightarrow> string \<Rightarrow> string \<times> string" where
  "split_first sep s =
     (takeWhile (\<lambda>c. c \<noteq> sep) s, drop 1 (dropWhile (\<lambda>c. c \<noteq> sep) s))"

definition split_scheme :: "string \<Rightarrow> string \<times> string" where
  "split_scheme url =
     (let head = takeWhile (\<lambda>c. c \<noteq> CHR '':'') url;
          rest = drop (Suc (length head)) url
      in if CHR '':'' \<in> set url \<and> head \<noteq> [] then
           if head = ''http'' then (''http'', rest)
           else if list_all (\<lambda>c. c \<in> set scheme_chars) head
                   \<and> (rest = [] \<or> list_ex (\<lambda>c. \<not> is_digit c) rest)
           then (py_lower head, rest)
           else ([], url)
         else ([], url))"

definition split_netloc :: "string \<Rightarrow> string \<times> string" where
  "split_netloc url =
     (if take 2 url = ''//''
      then (let body = drop 2 url;
                domain = takeWhile (\<lambda>c. c \<notin> set ''/?#'') body
            in (domain, drop (length domain) body))
      else ([], url))"

definition split_params :: "string \<Rightarrow> string \<times> string" where
  "split_params url =
     (let seg = rev (takeWhile (\<lambda>c. c \<noteq> CHR ''/'') (rev url));
          pre = take (length url - length seg) url
      in if CHR '';'' \<in> set seg
         then (pre @ fst (split_first CHR '';'' seg), snd (split_first CHR '';'' seg))
         else (url, []))"

definition py_urlparse :: "string \<Rightarrow> exn + parse_result" where
  "py_urlparse uri =
     (let (sch, url1) = split_scheme uri;
          (nl, url2) = split_netloc url1
      in if (CHR ''['' \<in> set nl \<and> CHR '']'' \<notin> set nl) \<or> (CHR '']'' \<in> set nl \<and> CHR ''['' \<notin> set nl)
         then Inl ValueError
         else
           (let (url3, frag) = (if CHR ''#'' \<in> set url2 then split_first CHR ''#'' url2
                                else (url2, []));
                (url4, qry) = (if CHR ''?'' \<in> set url3 then split_first CHR ''?'' url3
                               else (url3, []));
                (url5, prm) = (if sch \<in> set uses_params \<and> CHR '';'' \<in> set url4
                               then split_params url4 else (url4, []))
            in Inr \<lparr>scheme = sch, netloc = nl, path = url5, params = prm,
                     query = qry, fragment = frag\<rparr>))"

subsection \<open>\<open>urllib.parse.parse_qs\<close> with blank values kept\<close>

text \<open>
  \<open>bytes.decode('utf-8', 'replace')\<close>: a malformed sequence becomes the one code point
  \<open>U+FFFD\<close>. The error covers the start byte alone when it cannot start a sequence, the
  bytes of the sequence read so far when the next byte cannot continue it, and all the
  remaining bytes when the input ends inside a sequence.
\<close>

fun utf8_decode_replace :: "byte list \<Rightarrow> nat list" where
  "utf8_decode_replace [] = []"
| "utf8_decode_replace (b0 # bs) =
     (if unat b0 < 128 then unat b0 # utf8_decode_replace bs
      else if 194 \<le> unat b0 \<and> unat b0 \<le> 223 then
        (case bs of
           [] \<Rightarrow> [65533]
         | b1 # r \<Rightarrow>
             if is_cont b1
             then ((unat b0 - 192) * 64 + (unat b1 - 128)) # utf8_decode_replace r
             else 65533 # utf8_decode_replace bs)
      else if 224 \<le> unat b0 \<and> unat b0 \<le> 239 then
        (case bs of
           [] \<Rightarrow> [65533]
         | b1 # r1 \<Rightarrow>
             if \<not> (is_cont b1 \<and> (unat b0 = 224 \<longrightarrow> 160 \<le> unat b1)
                     \<and> (unat b0 = 237 \<longrightarrow> unat b1 \<le> 159))
             then 65533 # utf8_decode_replace bs
             else (case r1 of
                     [] \<Rightarrow> [65533]
                   | b2 # r \<Rightarrow>
                       if is_cont b2
                       then ((unat b0 - 224) * 4096 + (unat b1 - 128) * 64 + (unat b2 - 128))
                            # utf8_decode_replace r
                       else 65533 # utf8_decode_replace r1))
      else if 240 \<le> unat b0 \<and> unat b0 \<le> 244 then
        (case bs of
           [] \<Rightarrow> [65533]
         | b1 # r1 \<Rightarrow>
             if \<not> (is_cont b1 \<and> (unat b0 = 240 \<longrightarrow> 144 \<le> unat b1)
                     \<and> (unat b0 = 244 \<longrightarrow> unat b1 \<le> 143))
             then 65533 # utf8_decode_replace bs
             else (case r1 of
                     [] \<Rightarrow> [65533]
                   | b2 # r2 \<Rightarrow>
                       if \<not> is_cont b2 then 65533 # utf8_decode_replace r1
                       else (case r2 of
                               [] \<Rightarrow> [65533]
                             | b3 # r \<Rightarrow>
                                 if is_cont b3
                                 then ((unat b0 - 240) * 262144 + (unat b1 - 128) * 4096
                                       + (unat b2 - 128) * 64 + (unat b3 - 128))
                                      # utf8_decode_replace r
                                 else 65533 # utf8_decode_replace r2)))
      else 65533 # utf8_decode_replace bs)"

text \<open>
  \<open>unquote_to_bytes\<close> on a run of ASCII characters: the text is split at \<open>%\<close>; a piece
  that starts with two hexadecimal digits gives the byte they denote and the rest of the
  piece, any other piece keeps its \<open>%\<close>.
\<close>

definition unquote_item :: "string \<Rightarrow> byte list" where
  "unquote_item item =
     (case item of
        c # d # rest \<Rightarrow>
          (case (hex_val c, hex_val d) of
             (Some h, Some l) \<Rightarrow> of_nat (16 * h + l) # ascii_bytes rest
           | _ \<Rightarrow> ascii_bytes (CHR ''%'' # item))
      | _ \<Rightarrow> ascii_bytes (CHR ''%'' # item))"

definition unquote_to_bytes :: "string \<Rightarrow> byte list" where
  "unquote_to_bytes s =
     (case split_on CHR ''%'' s of
        [] \<Rightarrow> []
      | first # rest \<Rightarrow> ascii_bytes first @ concat (map unquote_item rest))"

text \<open>The maximal runs of ASCII and of other characters, in order; the flag tells
  which kind a run is.\<close>

definition is_ascii :: "char \<Rightarrow> bool" where
  "is_ascii c = ((of_char c :: nat) < 128)"

fun ascii_runs :: "string \<Rightarrow> (bool \<times> string) list" where
  "ascii_runs [] = []"
| "ascii_runs (c # cs) =
     (case ascii_runs cs of
        [] \<Rightarrow> [(is_ascii c, [c])]
      | (a, r) # rest \<Rightarrow>
          if a = is_ascii c then (a, c # r) # rest else (is_ascii c, [c]) # (a, r) # rest)"

text \<open>\<open>unquote(s)\<close> with the defaults \<open>utf-8\<close> and \<open>replace\<close>: a text without \<open>%\<close> is
  returned as it is; otherwise every ASCII run is unquoted to bytes and decoded, and the
  other runs are kept.\<close>

definition unquote :: "string \<Rightarrow> nat list" where
  "unquote s =
     (if CHR ''%'' \<notin> set s then code_points s
      else concat (map (\<lambda>run. if fst run then utf8_decode_replace (unquote_to_bytes (snd run))
                               else code_points (snd run))
                       (ascii_runs s)))"

definition plus_to_space :: "string \<Rightarrow> string" where
  "plus_to_space s = map (\<lambda>c. if c = CHR ''+'' then CHR '' '' else c) s"

text \<open>\<open>parse_qsl(qs, keep_blank_values=True)\<close>: the fields are separated by \<open>&\<close>, empty
  fields are skipped, a field is split at its first \<open>=\<close> and has the empty value when
  it has none; in name and value \<open>+\<close> stands for a space and percent-escapes are
  unquoted.\<close>

definition parse_qsl :: "string \<Rightarrow> (nat list \<times> nat list) list" where
  "parse_qsl qs =
     map (\<lambda>name_value. (unquote (plus_to_space (fst (split_first CHR ''='' name_value))),
                         unquote (plus_to_space (snd (split_first CHR ''='' name_value)))))
         (filter (\<lambda>name_value. name_value \<noteq> []) (split_on CHR ''&'' qs))"

fun dict_append ::
  "(nat list \<times> nat list list) list \<Rightarrow> nat list \<Rightarrow> nat list \<Rightarrow> (nat list \<times> nat list list) list"
  where
  "dict_append [] name v = [(name, [v])]"
| "dict_append ((k, vs) # d) name v =
     (if k = name then (k, vs @ [v]) # d else (k, vs) # dict_append d name v)"

definition py_parse_qs :: "string \<Rightarrow> exn + (nat list \<times> nat list list) list" where
  "py_parse_qs qs = Inr (foldl (\<lambda>d item. dict_append d (fst item) (snd item)) [] (parse_qsl qs))"

subsection \<open>\<open>hashlib.sha1\<close>\<close>

text \<open>SHA-1 (FIPS 180-4). A 32-bit word is an \<open>int\<close> below \<open>2 ^ 32\<close>; every addition
  and rotation reduces modulo \<open>2 ^ 32\<close>.\<close>

definition rotl :: "nat \<Rightarrow> int \<Rightarrow> int" where
  "rotl n x = (x * 2 ^ n) mod 2 ^ 32 + x div 2 ^ (32 - n)"

definition add32 :: "int \<Rightarrow> int \<Rightarrow> int" where
  "add32 a b = (a + b) mod 2 ^ 32"

definition not32 :: "int \<Rightarrow> int" where
  "not32 a = 2 ^ 32 - 1 - a"

definition be_bytes :: "nat \<Rightarrow> int \<Rightarrow> int list" where
  "be_bytes k n = map (\<lambda>i. (n div 256 ^ (k - 1 - i)) mod 256) [0..<k]"

definition sha1_pad :: "int list \<Rightarrow> int list" where
  "sha1_pad m = m @ [128] @ replicate ((119 - length m mod 64) mod 64) 0
                @ be_bytes 8 (8 * int (length m))"

definition be_word :: "int list \<Rightarrow> int" where
  "be_word bs = foldl (\<lambda>acc b. acc * 256 + b) 0 bs"

fun chunks :: "nat \<Rightarrow> nat \<Rightarrow> 'a list \<Rightarrow> 'a list list" where
  "chunks 0 k xs = []"
| "chunks (Suc n) k xs = take k xs # chunks n k (drop k xs)"

fun expand :: "nat \<Rightarrow> int list \<Rightarrow> int list" where
  "expand 0 w = w"
| "expand (Suc n) w =
     expand n (w @ [rotl 1 (xor (xor (xor (w ! (length w - 3)) (w ! (length w - 8)))
                                     (w ! (length w - 14))) (w ! (length w - 16)))])"

type_synonym sha1_state = "int \<times> int \<times> int \<times> int \<times> int"

definition sha1_f :: "nat \<Rightarrow> int \<Rightarrow> int \<Rightarrow> int \<Rightarrow> int" where
  "sha1_f i b c d =
     (if i < 20 then or (and b c) (and (not32 b) d)
      else if i < 40 then xor (xor b c) d
      else if i < 60 then or (or (and b c) (and b d)) (and c d)
      else xor (xor b c) d)"

definition sha1_k :: "nat \<Rightarrow> int" where
  "sha1_k i = (if i < 20 then 0x5A827999 else if i < 40 then 0x6ED9EBA1
               else if i < 60 then 0x8F1BBCDC else 0xCA62C1D6)"

definition sha1_round :: "sha1_state \<times> nat \<Rightarrow> int \<Rightarrow> sha1_state \<times> nat" where
  "sha1_round s wi = (case s of ((a, b, c, d, e), i) \<Rightarrow>
     ((add32 (add32 (add32 (add32 (rotl 5 a) (sha1_f i b c d)) e) (sha1_k i)) wi,
       a, rotl 30 b, c, d), Suc i))"

definition sha1_block :: "sha1_state \<Rightarrow> int list \<Rightarrow> sha1_state" where
  "sha1_block h blk = (case h of (h0, h1, h2, h3, h4) \<Rightarrow>
     (case foldl sha1_round (h, 0) (expand 64 (map be_word (chunks 16 4 blk))) of
        ((a, b, c, d, e), _) \<Rightarrow>
          (add32 h0 a, add32 h1 b, add32 h2 c, add32 h3 d, add32 h4 e)))"

definition sha1_digest_int :: "int list \<Rightarrow> int list" where
  "sha1_digest_int m =
     (let p = sha1_pad m in
      case foldl sha1_block (0x67452301, 0xEFCDAB89, 0x98BADCFE, 0x10325476, 0xC3D2E1F0)
                 (chunks (length p div 64) 64 p)
      of (h0, h1, h2, h3, h4) \<Rightarrow> concat (map (be_bytes 4) [h0, h1, h2, h3, h4]))"

definition sha1_digest :: "byte list \<Rightarrow> byte list" where
  "sha1_digest m = map of_int (sha1_digest_int (map uint m))"

subsection \<open>Stub collaborators\<close>

text \<open>
  Modelled from the spec: the registry scheme literal is the \<open>erc1319\<close> of the
  specification's examples, the supported chain ids are its documented known values 1, 3,
  4, 5 and 42, and the recognisers are stubs returning controlled results: a domain-style
  name is a text ending in \<open>.eth\<close>, no text counts as a checksummed address, an IPFS URI
  starts with \<open>ipfs:\<close>, and every package name is accepted.
\<close>

definition stub_externals :: externals where
  "stub_externals =
     \<lparr>REGISTRY_URI_SCHEME = ''erc1319'',
      is_ipfs_uri = (\<lambda>uri. prefix ''ipfs:'' uri),
      is_ens_domain = (\<lambda>identity. suffix ''.eth'' identity),
      is_checksum_address = (\<lambda>identity. False),
      is_supported_chain_id = (\<lambda>n. n \<in> {1, 3, 4, 5, 42}),
      validate_package_name = (\<lambda>name. Inr ()),
      urlparse = py_urlparse,
      parse_qs = py_parse_qs,
      sha1 = sha1_digest\<rparr>"

section \<open>Properties of the registry URI validators\<close>

lemma split_on_not_Nil: "split_on sep s \<noteq> []"
  by (induction s) (auto split: list.splits)

lemma length_split_on: "length (split_on sep s) = Suc (count_list s sep)"
proof (induction s)
  case Nil
  show ?case by simp
next
  case (Cons c cs)
  then show ?case
    using split_on_not_Nil [of sep cs] by (auto split: list.splits)
qed

lemma two_parts_iff: "(\<exists>a b. xs = [a, b]) \<longleftrightarrow> length xs = 2"
  by (cases xs; cases "tl xs"; cases "tl (tl xs)") auto

text \<open>
  Claim C4. An authority string whose number of colons is not exactly one (none, or two
  and more) is rejected with the malformed-authority error naming the whole authority;
  the surplus parts are never dropped silently.
\<close>

theorem authority_colon_count:
  assumes "count_list auth CHR '':'' \<noteq> 1"
  shows "validate_registry_uri_authority E auth = Inl (MalformedAuthority auth)"
proof -
  have "length (split_on CHR '':'' auth) \<noteq> 2"
    using assms by (simp add: length_split_on)
  then have "\<nexists>a b. split_on CHR '':'' auth = [a, b]"
    by (simp add: two_parts_iff)
  then show ?thesis
    unfolding validate_registry_uri_authority_def
    by (auto split: list.splits)
qed

theorem authority_colon_count_witness:
  "count_list ''0xAbC:1:2'' CHR '':'' \<noteq> 1
   \<and> validate_registry_uri_authority stub_externals ''0xAbC:1:2''
       = Inl (MalformedAuthority ''0xAbC:1:2'')"
proof -
  have h: "count_list ''0xAbC:1:2'' CHR '':'' \<noteq> 1" by simp
  show ?thesis using h authority_colon_count [OF h, of stub_externals] by simp
qed

lemma authority_error_not_missing_package_name:
  assumes "validate_registry_uri_authority E auth = Inl e"
  shows "e \<noteq> MissingPackageName"
proof -
  have a: "MalformedAuthority auth \<noteq> MissingPackageName"
    unfolding MalformedAuthority_def MissingPackageName_def
    by (auto dest!: arg_cong [where f = rev])
  have b: "\<And>x. InvalidAuthorityIdentity x \<noteq> MissingPackageName"
    unfolding InvalidAuthorityIdentity_def MissingPackageName_def
    by (auto dest!: arg_cong [where f = rev])
  have c: "\<And>x. UnsupportedChainID x \<noteq> MissingPackageName"
    unfolding UnsupportedChainID_def MissingPackageName_def
    by (auto dest!: arg_cong [where f = rev])
  have d: "ValueError \<noteq> MissingPackageName"
    by (simp add: MissingPackageName_def)
  from assms show ?thesis
    unfolding validate_registry_uri_authority_def to_int_def
    using a b c d
    by (auto split: list.splits if_splits sum.splits option.splits simp: Let_def)
qed

text \<open>
  The order of the checks in \<open>validate_registry_uri\<close>: a scheme other than the registry
  scheme fails before the authority is looked at, and with the registry scheme an
  exception of the authority validator is passed on as it is, whatever the path and the
  query are; it is never the version-without-package-name error.
\<close>

lemma scheme_checked_first:
  assumes "urlparse E uri = Inr parsed"
    and "scheme parsed \<noteq> REGISTRY_URI_SCHEME E"
  shows "validate_registry_uri E uri
           = Inl (EthPMValidationError (scheme parsed @ '' is not a valid registry URI scheme.''))"
  using assms
  by (simp add: validate_registry_uri_def validate_registry_uri_scheme_def)

lemma authority_error_passed_on:
  assumes "urlparse E uri = Inr parsed"
    and "scheme parsed = REGISTRY_URI_SCHEME E"
    and "validate_registry_uri_authority E (netloc parsed) = Inl e"
  shows "validate_registry_uri E uri = Inl e \<and> e \<noteq> MissingPackageName"
  using assms authority_error_not_missing_package_name [of E "netloc parsed" e]
  by (simp add: validate_registry_uri_def validate_registry_uri_scheme_def)

text \<open>
  Claim C5. With the registry scheme, a rejected authority, an empty package name and a
  query, the failure should be one of the three typed authority errors. The checks do
  run in that order, and the authority without a colon and the unsupported chain id
  \<open>999\<close> get their typed error; but for the chain id \<open>abc\<close> the \<open>ValueError\<close> of
  \<open>to_int\<close> leaves \<open>validate_registry_uri\<close> uncaught, and it is no
  \<open>EthPMValidationError\<close>.
\<close>

theorem unparsable_chain_id_before_package_name:
  "validate_registry_uri stub_externals ''erc1319://packages.eth:abc/?version=1.0.0''
     = Inl ValueError
   \<and> \<not> is_validation_error ValueError
   \<and> validate_registry_uri stub_externals ''erc1319://packages.eth:999/?version=1.0.0''
       = Inl (UnsupportedChainID ''999'')
   \<and> validate_registry_uri stub_externals ''erc1319://noColon/?version=1.0.0''
       = Inl (MalformedAuthority ''noColon'')
   \<and> validate_registry_uri stub_externals ''erc1319://packages.io:1/?version=1.0.0''
       = Inl (InvalidAuthorityIdentity ''packages.io'')"
  by code_simp

text \<open>
  Claim C6. With the registry scheme and an authority that passes, a path that strips
  to the empty package name fails with the version-without-package-name error when a
  query is present, and the validation succeeds when there is no query.
\<close>

theorem empty_package_name_and_query:
  assumes "urlparse E uri = Inr parsed"
    and "scheme parsed = REGISTRY_URI_SCHEME E"
    and "validate_registry_uri_authority E (netloc parsed) = Inr ()"
    and "py_strip ''/'' (path parsed) = []"
  shows "validate_registry_uri E uri =
           (if query parsed \<noteq> [] then Inl MissingPackageName else Inr ())"
  using assms
  by (simp add: validate_registry_uri_def validate_registry_uri_scheme_def)

lemma urlparse_empty_path_query:
  "urlparse stub_externals ''erc1319://packages.eth:1/?version=1.0.0''
     = Inr \<lparr>scheme = ''erc1319'', netloc = ''packages.eth:1'', path = ''/'', params = [],
            query = ''version=1.0.0'', fragment = []\<rparr>"
  by code_simp

theorem empty_package_name_and_query_witness:
  "validate_registry_uri stub_externals ''erc1319://packages.eth:1/?version=1.0.0''
     = Inl MissingPackageName"
proof -
  let ?p = "\<lparr>scheme = ''erc1319'', netloc = ''packages.eth:1'', path = ''/'', params = [],
             query = ''version=1.0.0'', fragment = []\<rparr>"
  have s: "scheme ?p = REGISTRY_URI_SCHEME stub_externals"
    by (simp add: stub_externals_def)
  have a: "validate_registry_uri_authority stub_externals (netloc ?p) = Inr ()"
    by code_simp
  have n: "py_strip ''/'' (path ?p) = []"
    by (simp add: py_strip_def)
  show ?thesis
    using empty_package_name_and_query [OF urlparse_empty_path_query s a n] by simp
qed

section \<open>Properties of the selection of the matching URI\<close>

lemma sublist_join_comma: "u \<in> set xs \<Longrightarrow> sublist u (join_comma xs)"
proof (induction xs rule: join_comma.induct)
  case 1
  then show ?case by simp
next
  case (2 x)
  then show ?case by simp
next
  case (3 x y ys)
  show ?case
  proof (cases "u = x")
    case True
    then show ?thesis by simp
  next
    case False
    with 3 have "sublist u (join_comma (y # ys))" by simp
    then obtain ps ss where "join_comma (y # ys) = ps @ u @ ss"
      by (auto simp: sublist_def)
    then have "join_comma (x # y # ys) = (x @ '', '' @ ps) @ u @ ss"
      by simp
    then show ?thesis
      unfolding sublist_def by blast
  qed
qed

lemma ambiguous_message_lists:
  assumes "u \<in> set ms"
  shows "sublist (py_repr_str u) (exn_message (AmbiguousMatch ms))"
proof -
  have "sublist (py_repr_str u) (join_comma (map py_repr_str ms))"
    using assms by (intro sublist_join_comma) simp
  then obtain ps ss where j: "join_comma (map py_repr_str ms) = ps @ py_repr_str u @ ss"
    by (auto simp: sublist_def)
  have "exn_message (AmbiguousMatch ms)
          = (''Package has too many ('' @ py_str_nat (length ms) @ '') matching URIs: '' @ ''['' @ ps)
            @ py_repr_str u @ (ss @ '']'' @ ''.'')"
    by (simp add: exn_message_def AmbiguousMatch_def py_repr_list_def j)
  then show ?thesis
    unfolding sublist_def by blast
qed

lemma ambiguous_message_count:
  "sublist (py_str_nat (length ms)) (exn_message (AmbiguousMatch ms))"
proof -
  have "exn_message (AmbiguousMatch ms)
          = ''Package has too many ('' @ py_str_nat (length ms)
            @ ('') matching URIs: '' @ py_repr_list ms @ ''.'')"
    by (simp add: exn_message_def AmbiguousMatch_def)
  then show ?thesis
    unfolding sublist_def by blast
qed

lemma filter_single:
  assumes "filter P xs = [u]"
  shows "u \<in> set xs \<and> P u \<and> (\<forall>v\<in>set xs. P v \<longrightarrow> v = u)"
proof -
  have "set (filter P xs) = {u}" using assms by simp
  then show ?thesis by auto
qed

text \<open>
  Claim C7. Among the candidates, those that the chain-match predicate accepts are
  collected. When exactly one entry of the list is accepted it is returned, and it is
  the only accepted candidate; when none is, the failure is the no-matching-URI error;
  when two or more are, the failure is the too-many error, whose message holds their
  number and the \<open>repr\<close> of every one of them: no candidate is preferred.
\<close>

theorem single_matching_uri:
  "(length (filter (chk w) uris) = 1 \<longrightarrow>
      (\<exists>u. validate_single_matching_uri chk uris w = Inr u \<and> filter (chk w) uris = [u]
           \<and> u \<in> set uris \<and> chk w u \<and> (\<forall>v\<in>set uris. chk w v \<longrightarrow> v = u)))
   \<and> (filter (chk w) uris = [] \<longrightarrow> validate_single_matching_uri chk uris w = Inl NoMatchingURI)
   \<and> (2 \<le> length (filter (chk w) uris) \<longrightarrow>
        validate_single_matching_uri chk uris w = Inl (AmbiguousMatch (filter (chk w) uris))
        \<and> sublist (py_str_nat (length (filter (chk w) uris)))
                    (exn_message (AmbiguousMatch (filter (chk w) uris)))
        \<and> (\<forall>u\<in>set (filter (chk w) uris).
               sublist (py_repr_str u) (exn_message (AmbiguousMatch (filter (chk w) uris)))))"
proof (intro conjI impI)
  assume "length (filter (chk w) uris) = 1"
  then obtain u where u: "filter (chk w) uris = [u]"
    by (cases "filter (chk w) uris") auto
  from filter_single [OF u] u
  show "\<exists>u. validate_single_matching_uri chk uris w = Inr u \<and> filter (chk w) uris = [u]
          \<and> u \<in> set uris \<and> chk w u \<and> (\<forall>v\<in>set uris. chk w v \<longrightarrow> v = u)"
    by (simp add: validate_single_matching_uri_def)
next
  assume "filter (chk w) uris = []"
  then show "validate_single_matching_uri chk uris w = Inl NoMatchingURI"
    by (simp add: validate_single_matching_uri_def)
next
  assume "2 \<le> length (filter (chk w) uris)"
  then show "validate_single_matching_uri chk uris w = Inl (AmbiguousMatch (filter (chk w) uris))"
    by (auto simp: validate_single_matching_uri_def Let_def)
next
  show "sublist (py_str_nat (length (filter (chk w) uris))) (exn_message (AmbiguousMatch (filter (chk w) uris)))"
    by (rule ambiguous_message_count)
next
  show "\<forall>u\<in>set (filter (chk w) uris). sublist (py_repr_str u) (exn_message (AmbiguousMatch (filter (chk w) uris)))"
    by (simp add: ambiguous_message_lists)
qed

theorem single_matching_uri_witness:
  "validate_single_matching_uri (\<lambda>w uri. uri \<in> set w) [''u1'', ''u2'', ''u3''] [''u2''] = Inr ''u2''
   \<and> validate_single_matching_uri (\<lambda>w uri. uri \<in> set w) [''u1'', ''u2'', ''u3''] [] = Inl NoMatchingURI
   \<and> validate_single_matching_uri (\<lambda>w uri. uri \<in> set w) [''u1'', ''u2'', ''u3''] [''u1'', ''u3'']
       = Inl (AmbiguousMatch [''u1'', ''u3''])"
  using single_matching_uri [of "\<lambda>w uri. uri \<in> set w" "[''u2'']" "[''u1'', ''u2'', ''u3'']"]
        single_matching_uri [of "\<lambda>w uri. uri \<in> set w" "[]" "[''u1'', ''u2'', ''u3'']"]
        single_matching_uri [of "\<lambda>w uri. uri \<in> set w" "[''u1'', ''u3'']" "[''u1'', ''u2'', ''u3'']"]
  by simp

section \<open>Properties of the middleware validators\<close>

lemma unhexlify_no_validation_error: "unhexlify s \<noteq> Inl (ValidationError m)"
  by (induction s rule: unhexlify.induct) (auto split: option.splits sum.splits)

lemma HexBytes_no_validation_error: "HexBytes v \<noteq> Inl (ValidationError m)"
  by (cases v) (auto simp: hexstr_to_bytes_def Let_def unhexlify_no_validation_error)

text \<open>
  Claim C9. \<open>check_extradata_length\<close> returns its argument unchanged whenever it
  returns; it raises \<open>ValidationError\<close> exactly when the value is a \<open>str\<close>, an
  \<open>int\<close> or \<open>bytes\<close> whose \<open>HexBytes\<close> form has more than 32 bytes; a value of
  another type is returned unchanged without a length check.
\<close>

theorem check_extradata_length_validating_identity:
  "(\<forall>r. check_extradata_length v = Inr r \<longrightarrow> r = v)
   \<and> ((\<exists>m. check_extradata_length v = Inl (ValidationError m))
        \<longleftrightarrow> (is_str_int_bytes v \<and> (\<exists>bs. HexBytes v = Inr bs \<and> MAX_EXTRADATA_LENGTH < length bs)))
   \<and> (\<not> is_str_int_bytes v \<longrightarrow> check_extradata_length v = Inr v)"
  using HexBytes_no_validation_error [of v]
  by (cases "HexBytes v") (auto simp: check_extradata_length_def split: if_splits)

theorem check_extradata_length_validating_identity_witness:
  "(\<exists>m. check_extradata_length (PBytes (replicate 33 0)) = Inl (ValidationError m))
   \<and> check_extradata_length (PList [PBytes (replicate 33 0)]) = Inr (PList [PBytes (replicate 33 0)])"
  using check_extradata_length_validating_identity [of "PBytes (replicate 33 0)"]
        check_extradata_length_validating_identity [of "PList [PBytes (replicate 33 0)]"]
  by (simp add: MAX_EXTRADATA_LENGTH_def)

lemma dissoc_filter: "dissoc d key = filter (\<lambda>item. fst item \<noteq> key) d"
proof (cases "10 * 1 < 6 * length d")
  case True
  have "key \<notin> set (map fst d) \<Longrightarrow> filter (\<lambda>item. fst item \<noteq> key) d = d"
    by (induction d) auto
  with True show ?thesis
    by (auto simp: dissoc_def dict_del_def)
next
  case False
  then have "length d \<le> 1" by simp
  then consider "d = []" | k v where "d = [(k, v)]"
    by (cases d; cases "tl d") auto
  then show ?thesis
    using False by cases (auto simp: dissoc_def)
qed

text \<open>
  Claim C10. \<open>transaction_normalizer\<close> removes the item of key \<open>chainId\<close> and
  nothing else: every other key keeps its value, the remaining items keep their order,
  and a dict without that key is returned as it is.
\<close>

theorem transaction_normalizer_frame:
  "(\<forall>k. k \<noteq> ''chainId'' \<longrightarrow> map_of (transaction_normalizer d) k = map_of d k)
   \<and> ''chainId'' \<notin> fst ` set (transaction_normalizer d)
   \<and> transaction_normalizer d = filter (\<lambda>item. fst item \<noteq> ''chainId'') d
   \<and> (''chainId'' \<notin> fst ` set d \<longrightarrow> transaction_normalizer d = d)"
proof -
  have f: "transaction_normalizer d = filter (\<lambda>item. fst item \<noteq> ''chainId'') d"
    by (simp add: transaction_normalizer_def dissoc_filter)
  have m: "\<And>k. k \<noteq> ''chainId'' \<Longrightarrow>
             map_of (filter (\<lambda>item. fst item \<noteq> ''chainId'') d) k = map_of d k"
    by (induction d) auto
  have i: "''chainId'' \<notin> fst ` set d \<Longrightarrow> filter (\<lambda>item. fst item \<noteq> ''chainId'') d = d"
    by (induction d) auto
  show ?thesis
    using m i by (auto simp: f)
qed

theorem transaction_normalizer_frame_witness:
  "transaction_normalizer [(''chainId'', PInt 1), (''to'', PStr ''0xabc''), (''value'', PInt 5)]
     = [(''to'', PStr ''0xabc''), (''value'', PInt 5)]
   \<and> transaction_normalizer [(''to'', PStr ''0xabc'')] = [(''to'', PStr ''0xabc'')]"
  using transaction_normalizer_frame [of "[(''chainId'', PInt 1), (''to'', PStr ''0xabc''), (''value'', PInt 5)]"]
        transaction_normalizer_frame [of "[(''to'', PStr ''0xabc'')]"]
  by simp

section \<open>Properties of the blob contents check\<close>

text \<open>Decoding is strict, so encoding the decoded text gives the bytes back.\<close>

lemma enc1: "a < 128 \<Longrightarrow> encode_cp a = Some [of_nat a]"
  by (simp add: encode_cp_def)

lemma divmod64:
  "r < 64 \<Longrightarrow> (q * 64 + r) div 64 = q \<and> (q * 64 + r) mod 64 = (r::nat)"
  by simp

lemma enc2:
  assumes "194 \<le> a" "a \<le> 223" "128 \<le> c" "c \<le> (191::nat)"
  shows "encode_cp ((a - 192) * 64 + (c - 128)) = Some [of_nat a, of_nat c]"
proof -
  define a' c' where "a' = a - 192" and "c' = c - 128"
  have a: "a = 192 + a'" and c: "c = 128 + c'"
    using assms by (simp_all add: a'_def c'_def)
  have b: "2 \<le> a'" "a' < 32" "c' < 64"
    using assms a c by simp_all
  define n where "n = a' * 64 + c'"
  have d: "n div 64 = a'" and m: "n mod 64 = c'"
    using b unfolding n_def by simp_all
  have r: "\<not> n < 128" "n < 2048"
    using b unfolding n_def by simp_all
  have "encode_cp n = Some [of_nat a, of_nat c]"
    unfolding encode_cp_def a c using r by (simp only: d m if_True if_False)
  then show ?thesis
    unfolding n_def a c by simp
qed

lemma enc3:
  assumes "224 \<le> a" "a \<le> 239" "128 \<le> c" "c \<le> 191" "128 \<le> d" "d \<le> (191::nat)"
    and "a = 224 \<longrightarrow> 160 \<le> c" and "a = 237 \<longrightarrow> c \<le> 159"
  shows "encode_cp ((a - 224) * 4096 + (c - 128) * 64 + (d - 128))
           = Some [of_nat a, of_nat c, of_nat d]"
proof -
  define a' c' d' where "a' = a - 224" and "c' = c - 128" and "d' = d - 128"
  have a: "a = 224 + a'" and c: "c = 128 + c'" and d: "d = 128 + d'"
    using assms by (simp_all add: a'_def c'_def d'_def)
  have b: "a' < 16" "c' < 64" "d' < 64" "a' = 0 \<longrightarrow> 32 \<le> c'" "a' = 13 \<longrightarrow> c' \<le> 31"
    using assms a c d by simp_all
  define n where "n = a' * 4096 + c' * 64 + d'"
  have n: "n = (a' * 64 + c') * 64 + d'"
    unfolding n_def by simp
  have m: "n mod 64 = d'" and d1: "n div 64 = a' * 64 + c'"
    using divmod64 [of d' "a' * 64 + c'"] b(3) unfolding n by blast+
  have d2: "n div 64 mod 64 = c'" and d2': "n div 64 div 64 = a'"
    using divmod64 [of c' a'] b(2) unfolding d1 by blast+
  have d3: "n div 4096 = a'"
    using d2' by (simp add: div_mult2_eq [symmetric])
  have lo: "2048 \<le> n"
  proof (cases "a' = 0")
    case True
    with b have "32 \<le> c'" by simp
    then show ?thesis unfolding n_def by linarith
  next
    case False
    then have "1 \<le> a'" by simp
    then show ?thesis unfolding n_def by linarith
  qed
  have sur: "\<not> (55296 \<le> n \<and> n \<le> 57343)"
  proof -
    consider "a' \<le> 12" | "a' = 13" | "14 \<le> a'" by linarith
    then show ?thesis
    proof cases
      case 1
      with b(2,3) show ?thesis unfolding n_def by linarith
    next
      case 2
      with b have "c' \<le> 31" by simp
      with 2 b(3) show ?thesis unfolding n_def by linarith
    next
      case 3
      then show ?thesis unfolding n_def by linarith
    qed
  qed
  have hi: "n < 65536"
    using b(1,2,3) unfolding n_def by linarith
  have r: "\<not> n < 128" "\<not> n < 2048" "\<not> (55296 \<le> n \<and> n \<le> 57343)" "n < 65536"
    using lo sur hi by simp_all
  have "encode_cp n = Some [of_nat a, of_nat c, of_nat d]"
    unfolding encode_cp_def a c d using r by (simp only: d2 d3 m if_True if_False)
  then show ?thesis
    unfolding n_def a c d by simp
qed

lemma enc4:
  assumes "240 \<le> a" "a \<le> 244" "128 \<le> c" "c \<le> 191" "128 \<le> d" "d \<le> 191"
    and "128 \<le> e" "e \<le> (191::nat)"
    and "a = 240 \<longrightarrow> 144 \<le> c" and "a = 244 \<longrightarrow> c \<le> 143"
  shows "encode_cp ((a - 240) * 262144 + (c - 128) * 4096 + (d - 128) * 64 + (e - 128))
           = Some [of_nat a, of_nat c, of_nat d, of_nat e]"
proof -
  define a' c' d' e' where "a' = a - 240" and "c' = c - 128" and "d' = d - 128"
    and "e' = e - 128"
  have a: "a = 240 + a'" and c: "c = 128 + c'" and d: "d = 128 + d'" and e: "e = 128 + e'"
    using assms by (simp_all add: a'_def c'_def d'_def e'_def)
  have b: "a' < 5" "c' < 64" "d' < 64" "e' < 64" "a' = 0 \<longrightarrow> 16 \<le> c'" "a' = 4 \<longrightarrow> c' \<le> 15"
    using assms a c d e by simp_all
  define n where "n = a' * 262144 + c' * 4096 + d' * 64 + e'"
  have n: "n = ((a' * 64 + c') * 64 + d') * 64 + e'"
    unfolding n_def by simp
  have m: "n mod 64 = e'" and d1: "n div 64 = (a' * 64 + c') * 64 + d'"
    using divmod64 [of e' "(a' * 64 + c') * 64 + d'"] b(4) unfolding n by blast+
  have d2: "n div 64 mod 64 = d'" and d2': "n div 64 div 64 = a' * 64 + c'"
    using divmod64 [of d' "a' * 64 + c'"] b(3) unfolding d1 by blast+
  have d3: "n div 4096 = a' * 64 + c'"
    using d2' by (simp add: div_mult2_eq [symmetric])
  have d4: "n div 4096 mod 64 = c'" and d4': "n div 4096 div 64 = a'"
    using divmod64 [of c' a'] b(2) unfolding d3 by blast+
  have d5: "n div 262144 = a'"
    using d4' by (simp add: div_mult2_eq [symmetric])
  have lo: "65536 \<le> n"
  proof (cases "a' = 0")
    case True
    with b have "16 \<le> c'" by simp
    then show ?thesis unfolding n_def by linarith
  next
    case False
    then have "1 \<le> a'" by simp
    then show ?thesis unfolding n_def by linarith
  qed
  have hi: "n < 1114112"
  proof (cases "a' = 4")
    case True
    with b have "c' \<le> 15" by simp
    with True b(3,4) show ?thesis unfolding n_def by linarith
  next
    case False
    with b(1) have "a' \<le> 3" by simp
    with b(2,3,4) show ?thesis unfolding n_def by linarith
  qed
  have r: "\<not> n < 128" "\<not> n < 2048" "\<not> (55296 \<le> n \<and> n \<le> 57343)" "\<not> n < 65536"
    "n < 1114112"
    using lo hi by simp_all
  have "encode_cp n = Some [of_nat a, of_nat c, of_nat d, of_nat e]"
    unfolding encode_cp_def a c d e using r by (simp only: d2 d4 d5 m if_True if_False)
  then show ?thesis
    unfolding n_def a c d e by simp
qed

lemma utf8_encode_decode: "utf8_decode bs = Some t \<Longrightarrow> utf8_encode t = Some bs"
proof (induction "length bs" arbitrary: bs t rule: less_induct)
  case less
  show ?case
  proof (cases bs)
    case Nil
    with less.prems show ?thesis by simp
  next
    case (Cons b0 bs')
    note dec = less.prems [unfolded Cons]
    consider (one) "unat b0 < 128"
      | (two) "194 \<le> unat b0" "unat b0 \<le> 223"
      | (three) "224 \<le> unat b0" "unat b0 \<le> 239"
      | (four) "240 \<le> unat b0" "unat b0 \<le> 244"
      | (bad) "128 \<le> unat b0" "unat b0 < 194 \<or> 244 < unat b0"
      by linarith
    then show ?thesis
    proof cases
      case one
      with dec obtain z where z: "utf8_decode bs' = Some z" and t: "t = unat b0 # z"
        by auto
      have ih: "utf8_encode z = Some bs'"
        using less.hyps [OF _ z] Cons by simp
      have enc: "encode_cp (unat b0) = Some [b0]"
        using enc1 [OF one] by simp
      show ?thesis
        unfolding t Cons utf8_encode.simps enc ih by simp
    next
      case two
      with dec obtain b1 r z where bs': "bs' = b1 # r" and c: "is_cont b1"
        and z: "utf8_decode r = Some z"
        and t: "t = ((unat b0 - 192) * 64 + (unat b1 - 128)) # z"
        by (auto split: list.splits if_splits)
      have ih: "utf8_encode z = Some r"
        using less.hyps [OF _ z] Cons bs' by simp
      have enc: "encode_cp ((unat b0 - 192) * 64 + (unat b1 - 128)) = Some [b0, b1]"
        using enc2 [of "unat b0" "unat b1"] two c by (simp add: is_cont_def)
      show ?thesis
        unfolding t Cons bs' utf8_encode.simps enc ih by simp
    next
      case three
      with dec obtain b1 b2 r z where bs': "bs' = b1 # b2 # r"
        and c: "is_cont b1" "is_cont b2"
        and lo: "unat b0 = 224 \<longrightarrow> 160 \<le> unat b1" and hi: "unat b0 = 237 \<longrightarrow> unat b1 \<le> 159"
        and z: "utf8_decode r = Some z"
        and t: "t = ((unat b0 - 224) * 4096 + (unat b1 - 128) * 64 + (unat b2 - 128)) # z"
        by (auto split: list.splits if_splits)
      have ih: "utf8_encode z = Some r"
        using less.hyps [OF _ z] Cons bs' by simp
      have enc: "encode_cp ((unat b0 - 224) * 4096 + (unat b1 - 128) * 64 + (unat b2 - 128))
                   = Some [b0, b1, b2]"
        using enc3 [of "unat b0" "unat b1" "unat b2"] three c lo hi by (simp add: is_cont_def)
      show ?thesis
        unfolding t Cons bs' utf8_encode.simps enc ih by simp
    next
      case four
      with dec obtain b1 b2 b3 r z where bs': "bs' = b1 # b2 # b3 # r"
        and c: "is_cont b1" "is_cont b2" "is_cont b3"
        and lo: "unat b0 = 240 \<longrightarrow> 144 \<le> unat b1" and hi: "unat b0 = 244 \<longrightarrow> unat b1 \<le> 143"
        and z: "utf8_decode r = Some z"
        and t: "t = ((unat b0 - 240) * 262144 + (unat b1 - 128) * 4096
                     + (unat b2 - 128) * 64 + (unat b3 - 128)) # z"
        by (auto split: list.splits if_splits)
      have ih: "utf8_encode z = Some r"
        using less.hyps [OF _ z] Cons bs' by simp
      have enc: "encode_cp ((unat b0 - 240) * 262144 + (unat b1 - 128) * 4096
                            + (unat b2 - 128) * 64 + (unat b3 - 128))
                   = Some [b0, b1, b2, b3]"
        using enc4 [of "unat b0" "unat b1" "unat b2" "unat b3"] four c lo hi
        by (simp add: is_cont_def)
      show ?thesis
        unfolding t Cons bs' utf8_encode.simps enc ih by simp
    next
      case bad
      with dec show ?thesis by auto
    qed
  qed
qed

lemma utf8_encode_append:
  "utf8_encode (xs @ ys) =
     (case utf8_encode xs of None \<Rightarrow> None | Some a \<Rightarrow> map_option ((@) a) (utf8_encode ys))"
proof (induction xs)
  case Nil
  show ?case by (cases "utf8_encode ys") simp_all
next
  case (Cons x xs)
  then show ?case by (cases "utf8_encode ys") (auto split: option.splits)
qed

lemma utf8_encode_ascii:
  "list_all (\<lambda>c. (of_char c :: nat) < 128) s \<Longrightarrow> utf8_encode (code_points s) = Some (ascii_bytes s)"
  by (induction s) (auto simp: code_points_def ascii_bytes_def enc1)

lemma py_str_nat_ascii: "list_all (\<lambda>c. (of_char c :: nat) < 128) (py_str_nat n)"
proof (induction n rule: py_str_nat.induct)
  case (1 n)
  have d: "\<And>k::nat. k < 10 \<Longrightarrow> (of_char (char_of (48 + k)) :: nat) < 128"
    by (simp add: mod_if)
  show ?case
  proof (cases "n < 10")
    case True
    then show ?thesis
      using d [of n] by (subst py_str_nat.simps) simp
  next
    case False
    then show ?thesis
      using 1 d [of "n mod 10"] by (subst py_str_nat.simps) simp
  qed
qed

lemma hashable_contents_bytes:
  assumes "utf8_decode contents = Some t"
  shows "to_bytes_text (hashable_contents t)
           = Inr (ascii_bytes ''blob '' @ ascii_bytes (py_str_nat (length t)) @ [0] @ contents)"
proof -
  have b: "utf8_encode (code_points ''blob '') = Some (ascii_bytes ''blob '')"
    by (rule utf8_encode_ascii) simp
  have n: "utf8_encode (code_points (py_str_nat (length t)))
             = Some (ascii_bytes (py_str_nat (length t)))"
    by (rule utf8_encode_ascii) (rule py_str_nat_ascii)
  have z: "utf8_encode [0] = Some [0]"
    by (simp add: encode_cp_def)
  have c: "utf8_encode t = Some contents"
    using assms by (rule utf8_encode_decode)
  have "utf8_encode (hashable_contents t)
          = Some (ascii_bytes ''blob '' @ ascii_bytes (py_str_nat (length t)) @ [0] @ contents)"
    unfolding hashable_contents_def utf8_encode_append b n z c by simp
  then show ?thesis
    by (simp add: to_bytes_text_def)
qed

lemma validate_blob_uri_contents_result:
  assumes "urlparse E blob_uri = Inr parsed"
    and "utf8_decode contents = Some t"
  shows "validate_blob_uri_contents E contents blob_uri =
           (if last (split_on CHR ''/'' (path parsed))
                 = hexlify (sha1 E (ascii_bytes ''blob '' @ ascii_bytes (py_str_nat (length t))
                                    @ [0] @ contents))
            then Inr ()
            else Inl (ContentHashMismatch blob_uri (last (split_on CHR ''/'' (path parsed)))))"
  using assms hashable_contents_bytes [OF assms(2)]
  by (auto simp: validate_blob_uri_contents_def to_text_def Let_def)

text \<open>
  Claim C8. For contents that decode as UTF-8 to a text of \<open>n\<close> code points, the bytes
  that are hashed are \<open>blob\<close>, a space, the decimal digits of \<open>n\<close>, a NUL byte and the
  contents themselves. When the last segment of the path of the blob URI is the
  hexadecimal digest of these bytes the check succeeds, and when it differs the check
  fails with the hash-mismatch error.
\<close>

theorem blob_round_trip:
  assumes "urlparse E blob_uri = Inr parsed"
    and "utf8_decode contents = Some t"
  shows "to_bytes_text (hashable_contents t)
           = Inr (ascii_bytes ''blob '' @ ascii_bytes (py_str_nat (length t)) @ [0] @ contents)
         \<and> (last (split_on CHR ''/'' (path parsed))
                = hexlify (sha1 E (ascii_bytes ''blob '' @ ascii_bytes (py_str_nat (length t))
                                   @ [0] @ contents))
              \<longrightarrow> validate_blob_uri_contents E contents blob_uri = Inr ())
         \<and> (last (split_on CHR ''/'' (path parsed))
                \<noteq> hexlify (sha1 E (ascii_bytes ''blob '' @ ascii_bytes (py_str_nat (length t))
                                   @ [0] @ contents))
              \<longrightarrow> validate_blob_uri_contents E contents blob_uri
                    = Inl (ContentHashMismatch blob_uri (last (split_on CHR ''/'' (path parsed)))))"
  using validate_blob_uri_contents_result [OF assms] hashable_contents_bytes [OF assms(2)]
  by simp

text \<open>
  Claim C2, as amended. When the digest of the framed contents differs from the last
  segment of the path of the blob URI, the check fails with the hash-mismatch error, and
  the message holds the blob URI and the expected digest taken from it.
\<close>

theorem blob_mismatch_message:
  assumes "urlparse E blob_uri = Inr parsed"
    and "utf8_decode contents = Some t"
    and "hexlify (sha1 E (ascii_bytes ''blob '' @ ascii_bytes (py_str_nat (length t))
                          @ [0] @ contents))
           \<noteq> last (split_on CHR ''/'' (path parsed))"
  shows "validate_blob_uri_contents E contents blob_uri
           = Inl (ContentHashMismatch blob_uri (last (split_on CHR ''/'' (path parsed))))
         \<and> sublist blob_uri
              (exn_message (ContentHashMismatch blob_uri (last (split_on CHR ''/'' (path parsed)))))
         \<and> sublist (last (split_on CHR ''/'' (path parsed)))
              (exn_message (ContentHashMismatch blob_uri (last (split_on CHR ''/'' (path parsed)))))"
proof -
  let ?h = "last (split_on CHR ''/'' (path parsed))"
  have r: "validate_blob_uri_contents E contents blob_uri = Inl (ContentHashMismatch blob_uri ?h)"
    using assms hashable_contents_bytes [OF assms(2)]
    by (auto simp: validate_blob_uri_contents_def to_text_def Let_def)
  have m: "exn_message (ContentHashMismatch blob_uri ?h)
             = ''Hash of contents fetched from '' @ blob_uri @ ('' do not match its hash: '' @ ?h @ ''.'')"
    by (simp add: exn_message_def ContentHashMismatch_def)
  have m': "exn_message (ContentHashMismatch blob_uri ?h)
             = (''Hash of contents fetched from '' @ blob_uri @ '' do not match its hash: '') @ ?h @ ''.''"
    by (simp add: exn_message_def ContentHashMismatch_def)
  have s1: "sublist blob_uri (exn_message (ContentHashMismatch blob_uri ?h))"
    unfolding m sublist_def by blast
  have s2: "sublist ?h (exn_message (ContentHashMismatch blob_uri ?h))"
    unfolding m' sublist_def by blast
  show ?thesis
    using r s1 s2 by blast
qed

text \<open>
  Claim C3, as amended. Contents that are not valid UTF-8 make the check fail with the
  decoder's \<open>UnicodeDecodeError\<close>, which is not an \<open>EthPMValidationError\<close>.
\<close>

theorem undecodable_contents_error:
  assumes "urlparse E blob_uri = Inr parsed"
    and "utf8_decode contents = None"
  shows "validate_blob_uri_contents E contents blob_uri = Inl UnicodeDecodeError
         \<and> \<not> is_validation_error UnicodeDecodeError"
  using assms
  by (simp add: validate_blob_uri_contents_def to_text_def Let_def is_validation_error_def)

lemma hello_bytes: "ascii_bytes ''hello'' = [104, 101, 108, 108, 111]"
  by (simp add: ascii_bytes_def)

lemma hello_decode: "utf8_decode [104, 101, 108, 108, 111] = Some [104, 101, 108, 108, 111]"
  by simp

lemma hello_framed_int:
  "sha1_digest_int [98, 108, 111, 98, 32, 53, 0, 104, 101, 108, 108, 111]
     = [182, 252, 76, 98, 11, 103, 217, 95, 149, 58, 92, 28, 18, 48, 170, 171, 93, 181, 161, 176]"
  by code_simp

lemma hello_digest:
  "hexlify (sha1_digest (ascii_bytes ''blob '' @ ascii_bytes (py_str_nat 5) @ [0]
                         @ [104, 101, 108, 108, 111]))
     = ''b6fc4c620b67d95f953a5c1c1230aaab5db5a1b0''"
proof -
  have e: "map uint (ascii_bytes ''blob '' @ ascii_bytes (py_str_nat 5) @ [0]
                     @ [104, 101, 108, 108, 111 :: byte])
             = [98, 108, 111, 98, 32, 53, 0, 104, 101, 108, 108, 111]"
    by (simp add: ascii_bytes_def)
  have d: "sha1_digest (ascii_bytes ''blob '' @ ascii_bytes (py_str_nat 5) @ [0]
                        @ [104, 101, 108, 108, 111])
             = map of_int [182, 252, 76, 98, 11, 103, 217, 95, 149, 58, 92, 28, 18, 48, 170,
                           171, 93, 181, 161, 176]"
    unfolding sha1_digest_def e hello_framed_int by (rule refl)
  show ?thesis
    unfolding d by (simp add: hexlify_def hex_digit_def char_of_eq_iff)
qed

lemma urlparse_blob_ok:
  "urlparse stub_externals
     ''https://api.github.com/repos/ethpm/py-ethpm/git/blobs/b6fc4c620b67d95f953a5c1c1230aaab5db5a1b0''
   = Inr \<lparr>scheme = ''https'', netloc = ''api.github.com'',
          path = ''/repos/ethpm/py-ethpm/git/blobs/b6fc4c620b67d95f953a5c1c1230aaab5db5a1b0'',
          params = [], query = [], fragment = []\<rparr>"
  by code_simp

lemma urlparse_blob_other:
  "urlparse stub_externals
     ''https://api.github.com/repos/ethpm/py-ethpm/git/blobs/ce013625030ba8dba906f756967f9e9ca394464a''
   = Inr \<lparr>scheme = ''https'', netloc = ''api.github.com'',
          path = ''/repos/ethpm/py-ethpm/git/blobs/ce013625030ba8dba906f756967f9e9ca394464a'',
          params = [], query = [], fragment = []\<rparr>"
  by code_simp

lemma last_segment_ok:
  "last (split_on CHR ''/'' ''/repos/ethpm/py-ethpm/git/blobs/b6fc4c620b67d95f953a5c1c1230aaab5db5a1b0'')
     = ''b6fc4c620b67d95f953a5c1c1230aaab5db5a1b0''"
  by code_simp

lemma last_segment_other:
  "last (split_on CHR ''/'' ''/repos/ethpm/py-ethpm/git/blobs/ce013625030ba8dba906f756967f9e9ca394464a'')
     = ''ce013625030ba8dba906f756967f9e9ca394464a''"
  by code_simp

lemma hello_digest_stub:
  "hexlify (sha1 stub_externals
              (ascii_bytes ''blob '' @ ascii_bytes (py_str_nat (length [104, 101, 108, 108, 111 :: nat]))
               @ [0] @ [104, 101, 108, 108, 111]))
     = ''b6fc4c620b67d95f953a5c1c1230aaab5db5a1b0''"
proof -
  have l: "length [104, 101, 108, 108, 111 :: nat] = 5" by simp
  have s: "sha1 stub_externals = sha1_digest" by (simp add: stub_externals_def)
  show ?thesis unfolding l s by (rule hello_digest)
qed

theorem blob_round_trip_witness:
  "validate_blob_uri_contents stub_externals [104, 101, 108, 108, 111]
     ''https://api.github.com/repos/ethpm/py-ethpm/git/blobs/b6fc4c620b67d95f953a5c1c1230aaab5db5a1b0''
   = Inr ()
   \<and> validate_blob_uri_contents stub_externals [104, 101, 108, 108, 111]
     ''https://api.github.com/repos/ethpm/py-ethpm/git/blobs/ce013625030ba8dba906f756967f9e9ca394464a''
   = Inl (ContentHashMismatch
            ''https://api.github.com/repos/ethpm/py-ethpm/git/blobs/ce013625030ba8dba906f756967f9e9ca394464a''
            ''ce013625030ba8dba906f756967f9e9ca394464a'')"
  using blob_round_trip [OF urlparse_blob_ok hello_decode]
        blob_round_trip [OF urlparse_blob_other hello_decode]
  unfolding hello_digest_stub parse_result.simps last_segment_ok last_segment_other
  by simp

theorem blob_mismatch_message_witness:
  "validate_blob_uri_contents stub_externals [104, 101, 108, 108, 111]
     ''https://api.github.com/repos/ethpm/py-ethpm/git/blobs/ce013625030ba8dba906f756967f9e9ca394464a''
   = Inl (ContentHashMismatch
            ''https://api.github.com/repos/ethpm/py-ethpm/git/blobs/ce013625030ba8dba906f756967f9e9ca394464a''
            ''ce013625030ba8dba906f756967f9e9ca394464a'')
   \<and> sublist ''ce013625030ba8dba906f756967f9e9ca394464a''
        (exn_message (ContentHashMismatch
            ''https://api.github.com/repos/ethpm/py-ethpm/git/blobs/ce013625030ba8dba906f756967f9e9ca394464a''
            ''ce013625030ba8dba906f756967f9e9ca394464a''))"
proof -
  have m: "hexlify (sha1 stub_externals
              (ascii_bytes ''blob '' @ ascii_bytes (py_str_nat (length [104, 101, 108, 108, 111 :: nat]))
               @ [0] @ [104, 101, 108, 108, 111]))
           \<noteq> last (split_on CHR ''/'' (path \<lparr>scheme = ''https'', netloc = ''api.github.com'',
          path = ''/repos/ethpm/py-ethpm/git/blobs/ce013625030ba8dba906f756967f9e9ca394464a'',
          params = [], query = [], fragment = []\<rparr>))"
    unfolding hello_digest_stub parse_result.simps last_segment_other by simp
  show ?thesis
    using blob_mismatch_message [OF urlparse_blob_other hello_decode m]
    unfolding parse_result.simps last_segment_other by simp
qed

theorem blob_mismatch_message_counterexample:
  "validate_blob_uri_contents stub_externals [104, 101, 108, 108, 111]
     ''https://api.github.com/repos/ethpm/py-ethpm/git/blobs/ce013625030ba8dba906f756967f9e9ca394464a''
   = Inl (ContentHashMismatch
            ''https://api.github.com/repos/ethpm/py-ethpm/git/blobs/ce013625030ba8dba906f756967f9e9ca394464a''
            ''ce013625030ba8dba906f756967f9e9ca394464a'')
   \<and> hexlify (sha1 stub_externals
              (ascii_bytes ''blob '' @ ascii_bytes (py_str_nat (length [104, 101, 108, 108, 111 :: nat]))
               @ [0] @ [104, 101, 108, 108, 111]))
       = ''b6fc4c620b67d95f953a5c1c1230aaab5db5a1b0''
   \<and> \<not> sublist ''b6fc4c620b67d95f953a5c1c1230aaab5db5a1b0''
        (exn_message (ContentHashMismatch
            ''https://api.github.com/repos/ethpm/py-ethpm/git/blobs/ce013625030ba8dba906f756967f9e9ca394464a''
            ''ce013625030ba8dba906f756967f9e9ca394464a''))"
proof -
  have r: "validate_blob_uri_contents stub_externals [104, 101, 108, 108, 111]
     ''https://api.github.com/repos/ethpm/py-ethpm/git/blobs/ce013625030ba8dba906f756967f9e9ca394464a''
   = Inl (ContentHashMismatch
            ''https://api.github.com/repos/ethpm/py-ethpm/git/blobs/ce013625030ba8dba906f756967f9e9ca394464a''
            ''ce013625030ba8dba906f756967f9e9ca394464a'')"
    using validate_blob_uri_contents_result [OF urlparse_blob_other hello_decode]
    unfolding hello_digest_stub parse_result.simps last_segment_other by simp
  have n: "\<not> sublist ''b6fc4c620b67d95f953a5c1c1230aaab5db5a1b0''
        (exn_message (ContentHashMismatch
            ''https://api.github.com/repos/ethpm/py-ethpm/git/blobs/ce013625030ba8dba906f756967f9e9ca394464a''
            ''ce013625030ba8dba906f756967f9e9ca394464a''))"
    by code_simp
  show ?thesis
    using r n hello_digest_stub by blast
qed

lemma urlparse_blob_short:
  "urlparse stub_externals ''https://example.com/blobs/00''
   = Inr \<lparr>scheme = ''https'', netloc = ''example.com'', path = ''/blobs/00'',
          params = [], query = [], fragment = []\<rparr>"
  by code_simp

theorem undecodable_contents_error_witness:
  "validate_blob_uri_contents stub_externals [0xC3, 0x28] ''https://example.com/blobs/00''
     = Inl UnicodeDecodeError
   \<and> \<not> is_validation_error UnicodeDecodeError"
proof -
  have d: "utf8_decode [0xC3, 0x28] = None"
    by (simp add: is_cont_def)
  show ?thesis
    using undecodable_contents_error [OF urlparse_blob_short d] by simp
qed

theorem undecodable_contents_error_counterexample:
  "validate_blob_uri_contents stub_externals [0xFF] ''https://example.com/blobs/00''
     = Inl UnicodeDecodeError
   \<and> \<not> is_validation_error UnicodeDecodeError"
proof -
  have d: "utf8_decode [0xFF] = None"
    by simp
  show ?thesis
    by (simp add: validate_blob_uri_contents_def urlparse_blob_short to_text_def d
                  is_validation_error_def Let_def)
qed

section \<open>The chain id of a registry authority\<close>

lemma split_on_no_sep: "sep \<notin> set s \<Longrightarrow> split_on sep s = [s]"
  by (induction s) auto

lemma split_on_one_sep:
  "sep \<notin> set a \<Longrightarrow> sep \<notin> set b \<Longrightarrow> split_on sep (a @ sep # b) = [a, b]"
  by (induction a) (auto simp: split_on_no_sep)

lemma unparsable_chain_id_raises_ValueError:
  assumes "CHR '':'' \<notin> set address" and "CHR '':'' \<notin> set chain_id"
    and "is_ens_domain E address \<or> is_checksum_address E address"
    and "to_int chain_id = Inl e"
  shows "validate_registry_uri_authority E (address @ CHR '':'' # chain_id) = Inl ValueError"
proof -
  have "e = ValueError"
    using assms(4) by (auto simp: to_int_def Let_def split: option.splits)
  then show ?thesis
    using assms by (auto simp: validate_registry_uri_authority_def split_on_one_sep)
qed

text \<open>
  Claim C1. A chain id that is no decimal literal should fail with the same
  unsupported-chain-id error as a literal that is not supported. In the code
  \<open>to_int\<close> raises first and nothing catches its \<open>ValueError\<close>: for the authority
  \<open>packages.eth:abc\<close> the result is that exception, which is no
  \<open>EthPMValidationError\<close>, while \<open>packages.eth:999\<close> gets the typed error.
\<close>

theorem unparsable_chain_id_escapes:
  "to_int ''abc'' = Inl ValueError
   \<and> validate_registry_uri_authority stub_externals ''packages.eth:abc'' = Inl ValueError
   \<and> \<not> is_validation_error ValueError
   \<and> validate_registry_uri_authority stub_externals ''packages.eth:999''
       = Inl (UnsupportedChainID ''999'')"
  by code_simp

end
